theory Spec2Isabelle
  imports Main
begin

section \<open>Python strings\<close>

text \<open>
  A Python \<open>str\<close> is modelled as a \<open>string\<close>; one \<open>char\<close> stands for one code point
  (so the model covers the code points below 256). The characters that cannot be written
  inside a string literal get a name.
\<close>

abbreviation DQ :: char where "DQ \<equiv> CHR 0x22"
abbreviation SQ :: char where "SQ \<equiv> CHR 0x27"
abbreviation NL :: char where "NL \<equiv> CHR 0x0A"
abbreviation TAB :: char where "TAB \<equiv> CHR 0x09"
abbreviation BSL :: char where "BSL \<equiv> CHR 0x5C"

text \<open>\<open>s.startswith(p)\<close>.\<close>

fun startswith :: "string \<Rightarrow> string \<Rightarrow> bool" where
  "startswith s [] = True"
| "startswith [] (p # ps) = False"
| "startswith (c # cs) (p # ps) = (c = p \<and> startswith cs ps)"

text \<open>\<open>sub in s\<close> on strings: \<open>sub\<close> occurs in \<open>s\<close> as a substring.\<close>

fun str_in :: "string \<Rightarrow> string \<Rightarrow> bool" where
  "str_in sub [] = (sub = [])"
| "str_in sub (c # cs) = (startswith (c # cs) sub \<or> str_in sub cs)"

text \<open>\<open>sep.join(xs)\<close>.\<close>

fun join :: "string \<Rightarrow> string list \<Rightarrow> string" where
  "join sep [] = []"
| "join sep [x] = x"
| "join sep (x # y # ys) = x @ sep @ join sep (y # ys)"

section \<open>The host\<close>

text \<open>
  What \<open>utils.py\<close> reads from outside itself: the module global \<open>on_win\<close> of
  \<open>conda.common.compat\<close>, \<open>os.environ\<close>, \<open>sys.platform\<close>, the functions \<open>abspath\<close> and
  \<open>join\<close> of \<open>os.path\<close>, \<open>subprocess.list2cmdline\<close>, and the temporary file of
  \<open>Utf8NamedTemporaryFile\<close>: the name of the file it creates for a prefix and a suffix
  (\<open>None\<close> when the creation fails) and what \<open>write\<close> does with a \<open>str\<close> passed to it
  (\<open>None\<close> when it is accepted, the exception otherwise).
\<close>

datatype py_error =
  KeyError string
  | IndexError
  | TypeError
  | OSError
  | ReError

datatype chunk = Text string | Bytes string

record host =
  on_win :: bool
  environ :: "string \<rightharpoonup> string"
  platform :: string
  abspath :: "string \<Rightarrow> string"
  path_join :: "string list \<Rightarrow> string"
  list2cmdline :: "string list \<Rightarrow> string"
  named_temporary_file :: "string \<Rightarrow> string \<Rightarrow> string option"
  text_write :: "string \<Rightarrow> py_error option"

section \<open>\<open>quote_for_shell\<close>\<close>

text \<open>
  The body of the \<open>for\<close> loop of \<open>quote_for_shell\<close>: the quote chosen for one argument,
  and the element appended to \<open>quoted\<close>.
\<close>

definition choose_quote :: "string \<Rightarrow> string" where
  "choose_quote arg =
     (if str_in [DQ] arg then [SQ]
      else if str_in [SQ] arg then [DQ]
      else if \<not> str_in '' '' arg \<and> \<not> str_in [NL] arg then []
      else [DQ])"

fun quote_loop :: "string list \<Rightarrow> string list \<Rightarrow> string list" where
  "quote_loop quoted [] = quoted"
| "quote_loop quoted (arg # arguments) =
     quote_loop (quoted @ [choose_quote arg @ arg @ choose_quote arg]) arguments"

text \<open>
  \<open>shell\<close> is \<open>None\<close> by default; \<open>not shell\<close> holds for \<open>None\<close> and for the empty string.
\<close>

definition default_shell :: "host \<Rightarrow> string option \<Rightarrow> string" where
  "default_shell h shell =
     (case shell of
        None \<Rightarrow> (if on_win h then ''cmd.exe'' else ''bash'')
      | Some s \<Rightarrow> (if s = [] then (if on_win h then ''cmd.exe'' else ''bash'') else s))"

definition quote_for_shell :: "host \<Rightarrow> string list \<Rightarrow> string option \<Rightarrow> string" where
  "quote_for_shell h arguments shell =
     (if default_shell h shell = ''cmd.exe'' then list2cmdline h arguments
      else join '' '' (quote_loop [] arguments))"

subsection \<open>The quoting rule as the specification words it\<close>

text \<open>
  Single quotes if the argument contains a double quote; else double quotes if it
  contains a single quote; else no quoting if it contains no space and no newline; else
  double quotes.
\<close>

definition spec_quote_char :: "string \<Rightarrow> string" where
  "spec_quote_char arg =
     (if DQ \<in> set arg then [SQ]
      else if SQ \<in> set arg then [DQ]
      else if CHR '' '' \<notin> set arg \<and> NL \<notin> set arg then []
      else [DQ])"

definition spec_quote_arg :: "string \<Rightarrow> string" where
  "spec_quote_arg arg = spec_quote_char arg @ arg @ spec_quote_char arg"

fun spec_space_joined :: "string list \<Rightarrow> string" where
  "spec_space_joined [] = []"
| "spec_space_joined (x # xs) = (if xs = [] then x else x @ '' '' @ spec_space_joined xs)"

subsection \<open>The words a POSIX shell reads in a command line\<close>

text \<open>
  The specification compares the arguments with the words the shell splits the returned
  string into. This is token recognition of the shell command language, for the part of
  it that \<open>quote_for_shell\<close> writes: blanks (space, tab, newline) separate words; between
  single quotes every character stands for itself; between double quotes every character
  does but the dollar sign, the backquote and the backslash. Where a character has
  another meaning to the shell (an operator, an expansion, a pattern, a comment, an
  escape) the function gives \<open>None\<close>, as it does for a quote that is not closed: it says
  nothing of such a line. The word being read is \<open>None\<close> between two words; an empty pair
  of quotes starts a word.
\<close>

datatype quoting = Unquoted | In_single | In_double

definition shell_blank :: "char \<Rightarrow> bool" where
  "shell_blank c = (c = CHR '' '' \<or> c = TAB \<or> c = NL)"

definition shell_special :: string where
  "shell_special = ''|&;<>()$`*?[]#~=%!{}'' @ [BSL]"

definition double_special :: string where
  "double_special = ''$`'' @ [BSL]"

definition word_of :: "string option \<Rightarrow> string" where
  "word_of cur = (case cur of None \<Rightarrow> [] | Some w \<Rightarrow> w)"

fun shell_split :: "quoting \<Rightarrow> string option \<Rightarrow> string \<Rightarrow> string list option" where
  "shell_split Unquoted cur [] = Some (case cur of None \<Rightarrow> [] | Some w \<Rightarrow> [w])"
| "shell_split In_single cur [] = None"
| "shell_split In_double cur [] = None"
| "shell_split Unquoted cur (c # cs) =
     (if shell_blank c then
        (case cur of
           None \<Rightarrow> shell_split Unquoted None cs
         | Some w \<Rightarrow> map_option (Cons w) (shell_split Unquoted None cs))
      else if c = SQ then shell_split In_single (Some (word_of cur)) cs
      else if c = DQ then shell_split In_double (Some (word_of cur)) cs
      else if c \<in> set shell_special then None
      else shell_split Unquoted (Some (word_of cur @ [c])) cs)"
| "shell_split In_single cur (c # cs) =
     (if c = SQ then shell_split Unquoted cur cs
      else shell_split In_single (Some (word_of cur @ [c])) cs)"
| "shell_split In_double cur (c # cs) =
     (if c = DQ then shell_split Unquoted cur cs
      else if c \<in> set double_special then None
      else shell_split In_double (Some (word_of cur @ [c])) cs)"

definition shell_words :: "string \<Rightarrow> string list option" where
  "shell_words s = shell_split Unquoted None s"

text \<open>
  The arguments whose quoting by \<open>quote_for_shell\<close> the shell reads back: one with a
  double quote has no single quote; one that goes between double quotes has no dollar
  sign, backquote or backslash; one that is not quoted is not empty and has no blank and
  no character with a meaning to the shell.
\<close>

definition safely_quoted :: "string \<Rightarrow> bool" where
  "safely_quoted arg =
     (if DQ \<in> set arg then SQ \<notin> set arg
      else if SQ \<in> set arg \<or> CHR '' '' \<in> set arg \<or> NL \<in> set arg
        then list_all (\<lambda>c. c \<notin> set double_special) arg
      else arg \<noteq> [] \<and> list_all (\<lambda>c. \<not> shell_blank c \<and> c \<notin> set shell_special) arg)"

section \<open>Regular expressions\<close>

text \<open>
  \<open>unix_path_to_win\<close> calls \<open>re.sub\<close> with two patterns. The constructs those patterns
  use are a datatype: a literal, a character set \<open>[...]\<close> and its negation \<open>[^...]\<close>,
  concatenation, the negative lookahead \<open>(?!...)\<close>, the greedy \<open>*\<close>, and a group. An item
  of a set is a character, a range \<open>a-z\<close> or \<open>\s\<close>.
\<close>

datatype citem = One char | Range char char | Space

datatype regex =
  Lit string
  | Cls "citem list"
  | NotCls "citem list"
  | Seq regex regex
  | NotAhead regex
  | Star regex
  | Grp regex

text \<open>
  \<open>\s\<close> in a \<open>str\<close> pattern of Python 3 is Unicode whitespace: below 256 these are the code
  points 9 to 13, 28 to 32, 133 and 160.
\<close>

definition is_space :: "char \<Rightarrow> bool" where
  "is_space c =
     (let n = (of_char c :: nat)
      in (9 \<le> n \<and> n \<le> 13) \<or> (28 \<le> n \<and> n \<le> 32) \<or> n = 133 \<or> n = 160)"

fun item_has :: "citem \<Rightarrow> char \<Rightarrow> bool" where
  "item_has (One a) c = (c = a)"
| "item_has (Range a b) c = ((of_char a :: nat) \<le> of_char c \<and> (of_char c :: nat) \<le> of_char b)"
| "item_has Space c = is_space c"

text \<open>
  The backtracking matcher: \<open>rmatch r s\<close> lists what remains of \<open>s\<close> after each way of
  matching \<open>r\<close> at its start, in the order the engine tries them (a greedy \<open>*\<close> tries one
  more round before it stops; a round that consumes nothing ends the repetition).
\<close>

fun rmatch :: "regex \<Rightarrow> string \<Rightarrow> string list" where
  "rmatch (Lit l) s = (if startswith s l then [drop (length l) s] else [])"
| "rmatch (Cls items) s =
     (case s of [] \<Rightarrow> [] | c # cs \<Rightarrow> if list_ex (\<lambda>i. item_has i c) items then [cs] else [])"
| "rmatch (NotCls items) s =
     (case s of [] \<Rightarrow> [] | c # cs \<Rightarrow> if list_ex (\<lambda>i. item_has i c) items then [] else [cs])"
| "rmatch (Seq a b) s = concat (map (rmatch b) (rmatch a s))"
| "rmatch (NotAhead a) s = (if rmatch a s = [] then [s] else [])"
| "rmatch (Star a) s =
     concat (map (\<lambda>t. if length t < length s then rmatch (Star a) t else []) (rmatch a s)) @ [s]"
| "rmatch (Grp a) s = rmatch a s"

text \<open>
  The length of the first match at the start of \<open>s\<close>; with \<open>must_advance\<close> an empty match
  does not count.
\<close>

definition find_match :: "regex \<Rightarrow> bool \<Rightarrow> string \<Rightarrow> nat option" where
  "find_match r must_advance s =
     (case filter (\<lambda>t. \<not> must_advance \<or> length t < length s) (rmatch r s) of
        [] \<Rightarrow> None
      | t # ts \<Rightarrow> Some (length s - length t))"

definition then_append :: "string \<Rightarrow> py_error + string \<Rightarrow> py_error + string" where
  "then_append out rest = (case rest of Inl e \<Rightarrow> Inl e | Inr t \<Rightarrow> Inr (out @ t))"

text \<open>
  \<open>re.sub(pattern, repl, s)\<close> with a function \<open>repl\<close>, which gets \<open>group(0)\<close> of each match
  and may raise: the scan goes from left to right, copies a character where nothing
  matches, and after an empty match looks for a non-empty one at the same place
  (Python 3.7 and later).
\<close>

function re_sub ::
  "regex \<Rightarrow> (string \<Rightarrow> py_error + string) \<Rightarrow> bool \<Rightarrow> string \<Rightarrow> py_error + string" where
  "re_sub r repl must_advance s =
     (case find_match r must_advance s of
        None \<Rightarrow>
          (case s of [] \<Rightarrow> Inr [] | c # cs \<Rightarrow> then_append [c] (re_sub r repl False cs))
      | Some n \<Rightarrow>
          (case repl (take n s) of
             Inl e \<Rightarrow> Inl e
           | Inr out \<Rightarrow> then_append out (re_sub r repl (n = 0) (drop n s))))"
  by pat_completeness auto
termination
proof (relation "measure (\<lambda>(r, repl, adv, s). 2 * length s + (if adv then 0 else 1))")
  fix r :: regex and repl :: "string \<Rightarrow> py_error + string" and must_advance s n out
  assume "find_match r must_advance s = Some n"
  then obtain t ts
    where f: "filter (\<lambda>t. \<not> must_advance \<or> length t < length s) (rmatch r s) = t # ts"
      and n: "n = length s - length t"
    by (auto simp: find_match_def split: list.splits)
  from f have "\<not> must_advance \<or> length t < length s"
    by (metis (mono_tags, lifting) filter_eq_ConsD)
  with n show "((r, repl, n = 0, drop n s), (r, repl, must_advance, s))
        \<in> measure (\<lambda>(r, repl, adv, s). 2 * length s + (if adv then 0 else 1))"
    by auto
qed auto

declare re_sub.simps [simp del]

section \<open>\<open>unix_path_to_win\<close>\<close>

text \<open>\<open>s.replace(old, new)\<close> for one-character \<open>old\<close> and \<open>new\<close>.\<close>

definition replace_char :: "char \<Rightarrow> char \<Rightarrow> string \<Rightarrow> string" where
  "replace_char old new s = map (\<lambda>c. if c = old then new else c) s"

text \<open>
  The part of \<open>path_re\<close> after \<open>root_prefix\<close>:
  \<^verbatim>\<open>(/[a-zA-Z]/(?:(?![:\s]/)[^:*?"<>])*)\<close>
\<close>

definition path_group :: regex where
  "path_group =
     Grp (Seq (Lit ''/'')
         (Seq (Cls [Range CHR ''a'' CHR ''z'', Range CHR ''A'' CHR ''Z''])
         (Seq (Lit ''/'')
              (Star (Seq (NotAhead (Seq (Cls [One CHR '':'', Space]) (Lit ''/'')))
                         (NotCls [One CHR '':'', One CHR ''*'', One CHR ''?'', One DQ,
                                  One CHR ''<'', One CHR ''>'']))))))"

text \<open>The second pattern: a colon, a letter in a group, a colon and a backslash.\<close>

definition drive_re :: regex where
  "drive_re =
     Seq (Lit '':'')
         (Seq (Grp (Cls [Range CHR ''a'' CHR ''z'', Range CHR ''A'' CHR ''Z'']))
              (Lit ('':'' @ [BSL])))"

text \<open>
  \<open>root_prefix\<close> is spliced into the pattern text unescaped, so \<open>re\<close> reads it as a
  pattern. The characters with a meaning in a pattern are \<^verbatim>\<open>. ^ $ * + ? { } [ ] | ( ) \<close> and
  the backslash; every other character matches itself. The model covers two kinds of
  prefix: one without any of these characters, which is a literal; and one whose only
  such characters are opening parentheses, which the group of \<open>path_re\<close> leaves unclosed,
  so that \<open>re.sub\<close> raises \<open>re.error\<close> when it compiles the pattern. For any other prefix the
  model says nothing (\<open>None\<close>).
\<close>

definition re_specials :: string where
  "re_specials = ''.^$*+?{}[]|()'' @ [BSL]"

definition compile_path_re :: "string \<Rightarrow> (py_error + regex) option" where
  "compile_path_re root_prefix =
     (if list_all (\<lambda>c. c \<notin> set re_specials) root_prefix
        then Some (Inr (Seq (Lit root_prefix) path_group))
      else if list_all (\<lambda>c. c \<notin> set re_specials \<or> c = CHR ''('') root_prefix
        then Some (Inl ReError)
      else None)"

text \<open>
  \<open>_translation\<close>: \<open>found\<close> is \<open>found_path.group(0)\<close>; indexing past its end raises
  \<open>IndexError\<close>, slicing does not.
\<close>

definition translation :: "string \<Rightarrow> string \<Rightarrow> py_error + string" where
  "translation root_prefix found =
     (if length root_prefix + 1 < length found
      then Inr ([found ! (length root_prefix + 1)] @ '':''
                @ replace_char CHR ''/'' BSL (drop (length root_prefix + 2) found))
      else Inl IndexError)"

text \<open>The \<open>lambda\<close> of the second substitution.\<close>

definition drive_sep :: "string \<Rightarrow> py_error + string" where
  "drive_sep m = (if 1 < length m then Inr ('';'' @ [m ! 1] @ '':'' @ [BSL]) else Inl IndexError)"

definition unix_path_to_win :: "string \<Rightarrow> string \<Rightarrow> (py_error + string) option" where
  "unix_path_to_win path root_prefix =
     (if 1 < length path
         \<and> (str_in '';'' path \<or> (path ! 1 = CHR '':'' \<and> count_list path CHR '':'' = 1))
      then Some (Inr (replace_char CHR ''/'' BSL path))
      else
        (case compile_path_re root_prefix of
           None \<Rightarrow> None
         | Some (Inl e) \<Rightarrow> Some (Inl e)
         | Some (Inr path_re) \<Rightarrow>
             (case re_sub path_re (translation root_prefix) False path of
                Inl e \<Rightarrow> Some (Inl e)
              | Inr translated \<Rightarrow> Some (re_sub drive_re drive_sep False translated))))"

definition cygwin_path_to_win :: "string \<Rightarrow> (py_error + string) option" where
  "cygwin_path_to_win path = unix_path_to_win path ''/cygdrive''"

text \<open>
  The condition of the specification for a path that already looks like a Windows path:
  it contains a semicolon, or its second character is a colon and it has exactly one
  colon.
\<close>

definition looks_like_windows :: "string \<Rightarrow> bool" where
  "looks_like_windows p =
     (CHR '';'' \<in> set p \<or> (1 < length p \<and> p ! 1 = CHR '':'' \<and> count_list p CHR '':'' = 1))"

section \<open>The shell registry\<close>

text \<open>
  A value of a shell dictionary is a string, a list of strings, a pair of strings or a
  reference to a path converter (\<open>win_path_to_unix\<close> is imported from
  \<open>conda.common.path\<close>). A dictionary is a map from keys to values, and
  \<open>dict(base, k=v, ...)\<close> is the base overridden by the keyword arguments.
\<close>

datatype path_converter =
  Path_identity
  | Unix_path_to_win
  | Win_path_to_unix
  | Cygwin_path_to_win
  | Win_path_to_cygwin

datatype pyval =
  Str string
  | StrList "string list"
  | StrPair string string
  | Converter path_converter

type_synonym shell_dict = "string \<rightharpoonup> pyval"

definition dict :: "shell_dict \<Rightarrow> (string \<times> pyval) list \<Rightarrow> shell_dict" where
  "dict base kwargs = base ++ map_of kwargs"

definition unix_shell_base :: shell_dict where
  "unix_shell_base = map_of
     [(''binpath'', Str ''/bin/''),
      (''echo'', Str ''echo''),
      (''env_script_suffix'', Str ''.sh''),
      (''nul'', Str ''2>/dev/null''),
      (''path_from'', Converter Path_identity),
      (''path_to'', Converter Path_identity),
      (''pathsep'', Str '':''),
      (''printdefaultenv'', Str ''echo $CONDA_DEFAULT_ENV''),
      (''printpath'', Str ''echo $PATH''),
      (''printps1'', Str ''echo $CONDA_PROMPT_MODIFIER''),
      (''promptvar'', Str ''PS1''),
      (''sep'', Str ''/''),
      (''set_var'', Str ''export ''),
      (''shell_args'', StrList [''-l'', ''-c'']),
      (''shell_suffix'', Str ''''),
      (''slash_convert'', StrPair [BSL] ''/''),
      (''source_setup'', Str ''source''),
      (''test_echo_extra'', Str ''''),
      (''var_format'', Str ''${}'')]"

definition msys2_shell_base :: shell_dict where
  "msys2_shell_base = dict unix_shell_base
     [(''path_from'', Converter Unix_path_to_win),
      (''path_to'', Converter Win_path_to_unix),
      (''binpath'', Str ''/bin/''),
      (''printpath'',
         Str (''python -c '' @ [DQ] @ ''import os; print('' @ [SQ] @ '';'' @ [SQ]
              @ ''.join(os.environ['' @ [SQ] @ ''PATH'' @ [SQ] @ ''].split('' @ [SQ] @ '';''
              @ [SQ] @ '')[1:]))'' @ [DQ] @ '' | cygpath --path -f -''))]"

definition cmd_exe :: shell_dict where
  "cmd_exe = map_of
     [(''echo'', Str ''@echo''),
      (''var_format'', Str ''%{}%''),
      (''binpath'', Str ([BSL] @ ''Scripts'' @ [BSL])),
      (''source_setup'', Str ''call''),
      (''test_echo_extra'', Str ''''),
      (''nul'', Str ''1>NUL 2>&1''),
      (''set_var'', Str ''set ''),
      (''shell_suffix'', Str ''.bat''),
      (''env_script_suffix'', Str ''.bat''),
      (''printps1'', Str ''@echo %PROMPT%''),
      (''promptvar'', Str ''PROMPT''),
      (''printdefaultenv'',
         Str (''IF NOT '' @ [DQ] @ ''%CONDA_DEFAULT_ENV%'' @ [DQ] @ '' == '' @ [DQ, DQ]
              @ '' ('' @ [NL] @ ''echo %CONDA_DEFAULT_ENV% ) ELSE ('' @ [NL] @ ''echo()'')),
      (''printpath'', Str ''@echo %PATH%''),
      (''exe'', Str ''cmd.exe''),
      (''shell_args'', StrList [''/d'', ''/c'']),
      (''path_from'', Converter Path_identity),
      (''path_to'', Converter Path_identity),
      (''slash_convert'', StrPair ''/'' [BSL]),
      (''sep'', Str [BSL]),
      (''pathsep'', Str '';'')]"

text \<open>\<open>shells\<close> is built when the module is loaded, from the module global \<open>on_win\<close>.\<close>

definition shells :: "host \<Rightarrow> string \<rightharpoonup> shell_dict" where
  "shells h =
     (if on_win h then map_of
        [(''cmd.exe'', cmd_exe),
         (''cygwin'', dict unix_shell_base
            [(''exe'', Str ''bash.exe''),
             (''binpath'', Str ''/Scripts/''),
             (''path_from'', Converter Cygwin_path_to_win),
             (''path_to'', Converter Win_path_to_cygwin)]),
         (''bash.exe'', dict msys2_shell_base [(''exe'', Str ''bash.exe'')]),
         (''bash'', dict msys2_shell_base [(''exe'', Str ''bash'')]),
         (''sh.exe'', dict msys2_shell_base [(''exe'', Str ''sh.exe'')]),
         (''zsh.exe'', dict msys2_shell_base [(''exe'', Str ''zsh.exe'')]),
         (''zsh'', dict msys2_shell_base [(''exe'', Str ''zsh'')])]
      else map_of
        [(''bash'', dict unix_shell_base [(''exe'', Str ''bash'')]),
         (''dash'', dict unix_shell_base [(''exe'', Str ''dash''), (''source_setup'', Str ''.'')]),
         (''zsh'', dict unix_shell_base [(''exe'', Str ''zsh'')]),
         (''fish'', dict unix_shell_base [(''exe'', Str ''fish''), (''pathsep'', Str '' '')])])"

section \<open>\<open>wrap_subprocess_call\<close>\<close>

text \<open>
  \<open>str.encode('utf-8')\<close>: a code point below 128 is one byte, one from 128 to 255 is two.
\<close>

definition utf8_encode :: "string \<Rightarrow> string" where
  "utf8_encode s =
     concat (map (\<lambda>c. let n = (of_char c :: nat)
                      in if n < 128 then [c]
                         else [char_of (192 + n div 64), char_of (128 + n mod 64)]) s)"

text \<open>
  \<open>"{0}".format(xs)\<close> for a list \<open>xs\<close> of strings is \<open>str(xs)\<close>: the \<open>repr\<close> of each element
  between brackets, separated by a comma and a space. \<open>repr\<close> of a string (Python 3) takes
  double quotes when the string has a single quote and no double quote, single quotes
  otherwise, and escapes the quote, the backslash and the characters that are not
  printable.
\<close>

definition hex2 :: "nat \<Rightarrow> string" where
  "hex2 n = [''0123456789abcdef'' ! (n div 16 mod 16), ''0123456789abcdef'' ! (n mod 16)]"

definition repr_char :: "char \<Rightarrow> char \<Rightarrow> string" where
  "repr_char q c =
     (let n = (of_char c :: nat)
      in if c = q \<or> c = BSL then [BSL, c]
         else if c = TAB then [BSL, CHR ''t'']
         else if c = NL then [BSL, CHR ''n'']
         else if c = CHR 0x0D then [BSL, CHR ''r'']
         else if n < 32 \<or> n = 127 then [BSL, CHR ''x''] @ hex2 n
         else if n < 127 then [c]
         else if n \<le> 160 \<or> n = 173 then [BSL, CHR ''x''] @ hex2 n
         else [c])"

definition repr :: "string \<Rightarrow> string" where
  "repr s =
     (let q = (if SQ \<in> set s \<and> DQ \<notin> set s then DQ else SQ)
      in [q] @ concat (map (repr_char q) s) @ [q])"

definition str_of_list :: "string list \<Rightarrow> string" where
  "str_of_list xs = ''['' @ join '', '' (map repr xs) @ '']''"

text \<open>
  The file is opened with \<open>mode='w'\<close>, so \<open>fh\<close> is a text file: \<open>fh.write\<close> takes a \<open>str\<close>, for
  which the host answers, and raises \<open>TypeError\<close> for a byte string (Python 3). It is called
  with each value in turn, and the first one the handle refuses raises.
\<close>

definition fh_write :: "host \<Rightarrow> chunk \<Rightarrow> py_error option" where
  "fh_write h c = (case c of Text s \<Rightarrow> text_write h s | Bytes b \<Rightarrow> Some TypeError)"

fun write_all :: "(chunk \<Rightarrow> py_error option) \<Rightarrow> chunk list \<Rightarrow> py_error option" where
  "write_all w [] = None"
| "write_all w (c # cs) = (case w c of Some e \<Rightarrow> Some e | None \<Rightarrow> write_all w cs)"

text \<open>
  The result: the two values the function returns, and the values written to the file
  it leaves behind.
\<close>

record wrapped =
  script_caller :: string
  command_args :: "string list"
  script :: "chunk list"

definition multiline :: "string list \<Rightarrow> bool" where
  "multiline arguments = (length arguments = 1 \<and> str_in [NL] (arguments ! 0))"

text \<open>
  The parameter \<open>on_win\<close> of \<open>wrap_subprocess_call\<close> (here \<open>win\<close>) hides the module global,
  which \<open>quote_for_shell\<close> still reads. \<open>arguments\<close> is a list.
\<close>

definition win_lines :: "host \<Rightarrow> string \<Rightarrow> string \<Rightarrow> string list \<Rightarrow> chunk list" where
  "win_lines h conda_bat prefix arguments =
     [Text (''@FOR /F '' @ [DQ] @ ''tokens=100'' @ [DQ] @ '' %%F IN ('' @ [SQ] @ ''chcp''
            @ [SQ] @ '') DO @SET CONDA_OLD_CHCP=%%F'' @ [NL]),
      Text (''@chcp 65001>NUL'' @ [NL]),
      Bytes (utf8_encode (''@CALL '' @ [DQ] @ conda_bat @ [DQ] @ '' activate '' @ [DQ] @ prefix
                          @ [DQ] @ [NL])),
      (if multiline arguments then Text (arguments ! 0 @ [NL])
       else Text (''@'' @ quote_for_shell h arguments None @ [NL])),
      Text (''@chcp %CONDA_OLD_CHCP%>NUL'' @ [NL])]"

definition posix_conda_exe :: "host \<Rightarrow> string \<Rightarrow> bool \<Rightarrow> string list" where
  "posix_conda_exe h root_prefix dev_mode =
     (if dev_mode then [abspath h (path_join h [root_prefix, ''bin'', ''python'']), ''-m'', ''conda'']
      else [case environ h ''CONDA_EXE'' of
              Some exe \<Rightarrow> exe
            | None \<Rightarrow> abspath h (path_join h [root_prefix, ''bin'', ''conda''])])"

definition posix_lines :: "host \<Rightarrow> string list \<Rightarrow> string \<Rightarrow> bool \<Rightarrow> string list \<Rightarrow> chunk list" where
  "posix_lines h conda_exe prefix debug_wrapper_scripts arguments =
     (let hook_quoted = quote_for_shell h (conda_exe @ [''shell.posix'', ''hook'']) None
      in (if debug_wrapper_scripts
          then [Text (''>&2 echo '' @ [SQ] @ ''*** environment before ***'' @ [SQ] @ [NL]
                      @ ''>&2 env'' @ [NL]),
                Text (''>&2 echo '' @ [DQ] @ ''$('' @ hook_quoted @ '')'' @ [DQ] @ [NL])]
          else [])
         @ [Text (''eval '' @ [DQ] @ ''$('' @ hook_quoted @ '')'' @ [DQ] @ [NL]),
            Text (''conda activate '' @ quote_for_shell h [prefix] None @ [NL])]
         @ (if debug_wrapper_scripts
            then [Text (''>&2 echo '' @ [SQ] @ ''*** environment after ***'' @ [SQ] @ [NL]
                        @ ''>&2 env'' @ [NL])]
            else [])
         @ [if multiline arguments then Text (join '' '' arguments @ [NL])
            else if length arguments = 1 then Text (str_of_list arguments @ [NL])
            else Text (quote_for_shell h arguments None @ [NL])])"

definition wrap_subprocess_call ::
  "host \<Rightarrow> bool \<Rightarrow> string \<Rightarrow> string \<Rightarrow> bool \<Rightarrow> bool \<Rightarrow> string list \<Rightarrow> py_error + wrapped" where
  "wrap_subprocess_call h win root_prefix prefix dev_mode debug_wrapper_scripts arguments =
     (let tmp_prefix = abspath h (path_join h [prefix, ''.tmp''])
      in if win then
           (case environ h ''COMSPEC'' of
              None \<Rightarrow> Inl (KeyError ''COMSPEC'')
            | Some comspec \<Rightarrow>
                (let conda_bat =
                       (case environ h ''CONDA_BAT'' of
                          Some bat \<Rightarrow> bat
                        | None \<Rightarrow> abspath h (path_join h [root_prefix, ''condabin'', ''conda.bat'']))
                 in case named_temporary_file h tmp_prefix ''.bat'' of
                      None \<Rightarrow> Inl OSError
                    | Some name \<Rightarrow>
                        (case write_all (fh_write h) (win_lines h conda_bat prefix arguments) of
                           Some e \<Rightarrow> Inl e
                         | None \<Rightarrow>
                             Inr \<lparr>script_caller = name,
                                  command_args = [comspec, ''/d'', ''/c'', name],
                                  script = win_lines h conda_bat prefix arguments\<rparr>)))
         else
           (let shell_path = (if str_in ''bsd'' (platform h) then ''sh'' else ''bash'');
                conda_exe = posix_conda_exe h root_prefix dev_mode
            in case named_temporary_file h tmp_prefix '''' of
                 None \<Rightarrow> Inl OSError
               | Some name \<Rightarrow>
                   (case write_all (fh_write h)
                           (posix_lines h conda_exe prefix debug_wrapper_scripts arguments) of
                      Some e \<Rightarrow> Inl e
                    | None \<Rightarrow>
                        Inr \<lparr>script_caller = name,
                             command_args = [shell_path, ''-x'', name],
                             script = posix_lines h conda_exe prefix debug_wrapper_scripts
                                        arguments\<rparr>)))"

text \<open>
  The final command section of a script: the write that follows the activation lines.
  It is the last write on the POSIX path; on the Windows path the line that restores the
  code page follows it.
\<close>

definition command_section :: "bool \<Rightarrow> chunk list \<Rightarrow> chunk" where
  "command_section win chunks = (if win then last (butlast chunks) else last chunks)"

section \<open>Example hosts\<close>

text \<open>
  Two hosts on which the functions can be run: a Linux one with an empty environment, and
  a Windows one where \<open>COMSPEC\<close> is set. Their \<open>abspath\<close> leaves a path as it is, their
  \<open>join\<close> puts the separator between the parts, their \<open>list2cmdline\<close> joins with spaces,
  which is what the real one does for arguments without blanks, quotes and backslashes,
  and their file takes every \<open>str\<close>.
\<close>

definition linux_host :: host where
  "linux_host =
     \<lparr>on_win = False, environ = Map.empty, platform = ''linux'', abspath = id,
      path_join = join ''/'', list2cmdline = join '' '',
      named_temporary_file = (\<lambda>prefix suffix. Some (prefix @ ''k3d9'' @ suffix)),
      text_write = (\<lambda>s. None)\<rparr>"


section \<open>Properties of \<open>quote_for_shell\<close>\<close>

lemma startswith_single: "startswith s [c] = (s \<noteq> [] \<and> hd s = c)"
  by (cases s) auto

lemma str_in_single: "str_in [c] s = (c \<in> set s)"
  by (induction s) auto

lemma choose_quote_spec: "choose_quote arg = spec_quote_char arg"
  by (simp add: choose_quote_def spec_quote_char_def str_in_single)

lemma quote_loop_acc: "quote_loop quoted arguments = quoted @ map spec_quote_arg arguments"
  by (induction arguments arbitrary: quoted)
     (simp_all add: choose_quote_spec spec_quote_arg_def)

lemma join_space_spec: "join '' '' xs = spec_space_joined xs"
proof (induction xs)
  case Nil
  show ?case by simp
next
  case (Cons x xs)
  then show ?case by (cases xs) simp_all
qed

text \<open>
  C1. For a shell of the POSIX family (the shell, after defaulting, is not \<open>cmd.exe\<close>),
  \<open>quote_for_shell\<close> returns the space-joined list of quote + argument + quote, the quote
  of each argument chosen by the priority rule of the specification; and the arguments
  \<open>a b\<close> and \<open>c"d\<close> give \<open>"a b" 'c"d'\<close>.
\<close>

theorem quote_for_shell_posix:
  "(default_shell h shell \<noteq> ''cmd.exe'' \<longrightarrow>
      quote_for_shell h arguments shell = spec_space_joined (map spec_quote_arg arguments))
   \<and> quote_for_shell h [''a b'', ''c'' @ [DQ] @ ''d''] (Some ''bash'')
       = [DQ] @ ''a b'' @ [DQ] @ '' '' @ [SQ] @ ''c'' @ [DQ] @ ''d'' @ [SQ]"
proof
  show "default_shell h shell \<noteq> ''cmd.exe'' \<longrightarrow>
      quote_for_shell h arguments shell = spec_space_joined (map spec_quote_arg arguments)"
    by (simp add: quote_for_shell_def quote_loop_acc join_space_spec)
  have "default_shell h (Some ''bash'') = ''bash''"
    by (simp add: default_shell_def)
  then show "quote_for_shell h [''a b'', ''c'' @ [DQ] @ ''d''] (Some ''bash'')
       = [DQ] @ ''a b'' @ [DQ] @ '' '' @ [SQ] @ ''c'' @ [DQ] @ ''d'' @ [SQ]"
    by (simp add: quote_for_shell_def choose_quote_def)
qed

theorem quote_for_shell_posix_witness:
  "default_shell linux_host None \<noteq> ''cmd.exe''
   \<and> quote_for_shell linux_host [''ls'', ''my dir''] None = ''ls '' @ [DQ] @ ''my dir'' @ [DQ]"
  using quote_for_shell_posix [of linux_host None "[''ls'', ''my dir'']"]
  by (simp add: default_shell_def linux_host_def spec_quote_arg_def spec_quote_char_def)

section \<open>Properties of the shell registry\<close>

lemma dict_apply: "dict base kw k = (case map_of kw k of None \<Rightarrow> base k | Some v \<Rightarrow> Some v)"
  by (simp add: dict_def map_add_def)

lemma shells_dash:
  "\<not> on_win h \<Longrightarrow> shells h ''dash'' = Some (dict unix_shell_base [(''exe'', Str ''dash''), (''source_setup'', Str ''.'')])"
  by (simp add: shells_def)

text \<open>
  C9. On a POSIX host the registry entry for \<open>dash\<close> has \<open>source_setup\<close> equal to a dot,
  and every other key apart from \<open>exe\<close> has the value it has in \<open>unix_shell_base\<close>.
\<close>

theorem dash_entry:
  "\<not> on_win h \<longrightarrow>
     (\<exists>d. shells h ''dash'' = Some d
        \<and> d ''source_setup'' = Some (Str ''.'')
        \<and> (\<forall>k. k \<noteq> ''source_setup'' \<and> k \<noteq> ''exe'' \<longrightarrow> d k = unix_shell_base k))"
  by (simp add: shells_dash dict_apply)

theorem dash_entry_witness:
  "\<not> on_win linux_host
   \<and> (\<exists>d. shells linux_host ''dash'' = Some d \<and> d ''source_setup'' = Some (Str ''.'')
          \<and> d ''pathsep'' = unix_shell_base ''pathsep'')"
proof -
  have w: "\<not> on_win linux_host" by (simp add: linux_host_def)
  with dash_entry [of linux_host] obtain d where d: "shells linux_host ''dash'' = Some d"
      "d ''source_setup'' = Some (Str ''.'')"
      "\<forall>k. k \<noteq> ''source_setup'' \<and> k \<noteq> ''exe'' \<longrightarrow> d k = unix_shell_base k"
    by blast
  from d(3) have "d ''pathsep'' = unix_shell_base ''pathsep''" by simp
  with w d(1,2) show ?thesis by blast
qed

section \<open>Properties of \<open>wrap_subprocess_call\<close>\<close>

lemma multiline_iff: "multiline arguments \<longleftrightarrow> (\<exists>a. arguments = [a] \<and> NL \<in> set a)"
proof (cases arguments)
  case Nil
  then show ?thesis by (simp add: multiline_def)
next
  case (Cons a as)
  then show ?thesis by (cases as) (auto simp: multiline_def str_in_single)
qed


lemma command_section_posix: "command_section False (posix_lines h ce p dbg args) =
   (if multiline args then Text (join '' '' args @ [NL])
    else if length args = 1 then Text (str_of_list args @ [NL])
    else Text (quote_for_shell h args None @ [NL]))"
  by (simp add: command_section_def posix_lines_def Let_def)

lemma wrap_script:
  assumes "wrap_subprocess_call h win rp p dm dbg args = Inr w"
  shows "script w = (if win then win_lines h (case environ h ''CONDA_BAT'' of Some bat \<Rightarrow> bat
               | None \<Rightarrow> abspath h (path_join h [rp, ''condabin'', ''conda.bat''])) p args
            else posix_lines h (posix_conda_exe h rp dm) p dbg args)"
  using assms
  by (auto simp: wrap_subprocess_call_def Let_def split: if_splits option.splits)


lemma write_all_None: "(\<forall>c\<in>set cs. w c = None) \<Longrightarrow> write_all w cs = None"
  by (induction cs) simp_all

lemma fh_write_Text: "fh_write h (Text s) = text_write h s"
  by (simp add: fh_write_def)


lemma fh_write_environ [simp]: "fh_write (h\<lparr>environ := e\<rparr>) = fh_write h"
  by (rule ext) (simp add: fh_write_def split: chunk.splits)





lemma posix_lines_text: "c \<in> set (posix_lines h ce p dbg args) \<Longrightarrow> \<exists>s. c = Text s"
  by (auto simp: posix_lines_def Let_def split: if_splits)

lemma wrap_posix_ok:
  assumes "named_temporary_file h (abspath h (path_join h [p, ''.tmp''])) [] = Some name"
    and "\<forall>c\<in>set (posix_lines h (posix_conda_exe h rp dm) p dbg args). fh_write h c = None"
  shows "wrap_subprocess_call h False rp p dm dbg args =
     Inr \<lparr>script_caller = name,
          command_args = [if str_in ''bsd'' (platform h) then ''sh'' else ''bash'', ''-x'', name],
          script = posix_lines h (posix_conda_exe h rp dm) p dbg args\<rparr>"
  using assms write_all_None [of "posix_lines h (posix_conda_exe h rp dm) p dbg args" "fh_write h"]
  by (simp add: wrap_subprocess_call_def Let_def)

lemma wrap_posix_text_ok:
  assumes "named_temporary_file h (abspath h (path_join h [p, ''.tmp''])) [] = Some name"
    and "\<forall>s. text_write h s = None"
  shows "wrap_subprocess_call h False rp p dm dbg args =
     Inr \<lparr>script_caller = name,
          command_args = [if str_in ''bsd'' (platform h) then ''sh'' else ''bash'', ''-x'', name],
          script = posix_lines h (posix_conda_exe h rp dm) p dbg args\<rparr>"
proof (rule wrap_posix_ok [OF assms(1)])
  show "\<forall>c\<in>set (posix_lines h (posix_conda_exe h rp dm) p dbg args). fh_write h c = None"
  proof
    fix c
    assume "c \<in> set (posix_lines h (posix_conda_exe h rp dm) p dbg args)"
    then obtain s where "c = Text s" using posix_lines_text by blast
    with assms(2) show "fh_write h c = None" by (simp add: fh_write_Text)
  qed
qed

lemma linux_host_simps:
  "on_win linux_host = False" "environ linux_host k = None"
  "named_temporary_file linux_host pre suf = Some (pre @ ''k3d9'' @ suf)"
  "text_write linux_host s = None" "abspath linux_host x = x"
  "path_join linux_host xs = join ''/'' xs" "platform linux_host = ''linux''"
  by (simp_all add: linux_host_def)





lemma quote_for_shell_environ [simp]:
  "quote_for_shell (h\<lparr>environ := e\<rparr>) arguments shell = quote_for_shell h arguments shell"
  by (simp add: quote_for_shell_def default_shell_def)

lemma posix_lines_environ [simp]:
  "posix_lines (h\<lparr>environ := e\<rparr>) conda_exe p dbg args = posix_lines h conda_exe p dbg args"
  by (simp add: posix_lines_def)

lemma posix_conda_exe_dev:
  "posix_conda_exe h rp True = [abspath h (path_join h [rp, ''bin'', ''python'']), ''-m'', ''conda'']"
  by (simp add: posix_conda_exe_def)

lemma eval_line_written:
  "Text (''eval '' @ [DQ] @ ''$('' @ quote_for_shell h (conda_exe @ [''shell.posix'', ''hook'']) None
         @ '')'' @ [DQ] @ [NL]) \<in> set (posix_lines h conda_exe p dbg args)"
  by (simp add: posix_lines_def Let_def)

text \<open>
  C8. On the POSIX path in dev mode the result does not depend on \<open>CONDA_EXE\<close>: the call
  gives the same result whatever the environment holds under that name; and the script
  of a call that returns has the line \<open>eval "$(...)"\<close> with the quoted
  \<open>abspath(join(root_prefix, 'bin', 'python')) -m conda shell.posix hook\<close>.
\<close>

theorem dev_mode_entry_point:
  "wrap_subprocess_call (h\<lparr>environ := (environ h)(''CONDA_EXE'' := v)\<rparr>) False root_prefix prefix
       True debug_wrapper_scripts arguments
     = wrap_subprocess_call h False root_prefix prefix True debug_wrapper_scripts arguments
   \<and> (wrap_subprocess_call h False root_prefix prefix True debug_wrapper_scripts arguments = Inr w
      \<longrightarrow> Text (''eval '' @ [DQ] @ ''$(''
                @ quote_for_shell h
                    [abspath h (path_join h [root_prefix, ''bin'', ''python'']), ''-m'', ''conda'',
                     ''shell.posix'', ''hook''] None
                @ '')'' @ [DQ] @ [NL]) \<in> set (script w))"
proof
  show "wrap_subprocess_call (h\<lparr>environ := (environ h)(''CONDA_EXE'' := v)\<rparr>) False root_prefix prefix
       True debug_wrapper_scripts arguments
     = wrap_subprocess_call h False root_prefix prefix True debug_wrapper_scripts arguments"
    by (simp add: wrap_subprocess_call_def posix_conda_exe_dev Let_def split: option.splits)
  show "wrap_subprocess_call h False root_prefix prefix True debug_wrapper_scripts arguments = Inr w
      \<longrightarrow> Text (''eval '' @ [DQ] @ ''$(''
                @ quote_for_shell h
                    [abspath h (path_join h [root_prefix, ''bin'', ''python'']), ''-m'', ''conda'',
                     ''shell.posix'', ''hook''] None
                @ '')'' @ [DQ] @ [NL]) \<in> set (script w)"
  proof
    assume "wrap_subprocess_call h False root_prefix prefix True debug_wrapper_scripts arguments = Inr w"
    then have "script w = posix_lines h (posix_conda_exe h root_prefix True) prefix
        debug_wrapper_scripts arguments"
      using wrap_script [of h False root_prefix prefix True debug_wrapper_scripts arguments w]
      by simp
    then show "Text (''eval '' @ [DQ] @ ''$(''
                @ quote_for_shell h
                    [abspath h (path_join h [root_prefix, ''bin'', ''python'']), ''-m'', ''conda'',
                     ''shell.posix'', ''hook''] None
                @ '')'' @ [DQ] @ [NL]) \<in> set (script w)"
      using eval_line_written [of h "posix_conda_exe h root_prefix True" prefix
          debug_wrapper_scripts arguments]
      by (simp add: posix_conda_exe_dev)
  qed
qed

theorem dev_mode_entry_point_witness:
  "\<exists>w. wrap_subprocess_call linux_host False ''/opt/conda'' ''/opt/conda/envs/test'' True False
          [''pytest'', ''-x''] = Inr w
     \<and> wrap_subprocess_call (linux_host\<lparr>environ := (environ linux_host)(''CONDA_EXE'' := Some ''/usr/bin/conda'')\<rparr>)
          False ''/opt/conda'' ''/opt/conda/envs/test'' True False [''pytest'', ''-x''] = Inr w
     \<and> Text (''eval '' @ [DQ] @ ''$(/opt/conda/bin/python -m conda shell.posix hook)'' @ [DQ] @ [NL])
          \<in> set (script w)"
proof -
  obtain w where w: "wrap_subprocess_call linux_host False ''/opt/conda'' ''/opt/conda/envs/test''
      True False [''pytest'', ''-x''] = Inr w"
    using wrap_posix_text_ok [of linux_host "''/opt/conda/envs/test''" _ "''/opt/conda''" True False
        "[''pytest'', ''-x'']"]
    by (simp add: linux_host_simps)
  have q: "quote_for_shell linux_host
       [abspath linux_host (path_join linux_host [''/opt/conda'', ''bin'', ''python'']), ''-m'',
        ''conda'', ''shell.posix'', ''hook''] None
     = ''/opt/conda/bin/python -m conda shell.posix hook''"
    by (simp add: linux_host_simps quote_for_shell_def default_shell_def choose_quote_def)
  from w q show ?thesis
    using dev_mode_entry_point [of linux_host "Some ''/usr/bin/conda''" "''/opt/conda''"
        "''/opt/conda/envs/test''" False "[''pytest'', ''-x'']" w]
    by simp
qed

lemma repr_char_length: "1 \<le> length (repr_char q c)"
  by (simp add: repr_char_def Let_def hex2_def)

lemma concat_repr_length: "length s \<le> length (concat (map (repr_char q) s))"
proof (induction s)
  case Nil
  show ?case by simp
next
  case (Cons c cs)
  with repr_char_length [of q c] show ?case by simp
qed

lemma repr_length: "length s + 2 \<le> length (repr s)"
  using concat_repr_length [of s "if SQ \<in> set s \<and> DQ \<notin> set s then DQ else SQ"]
  by (simp add: repr_def Let_def)

lemma str_of_list_single: "str_of_list [a] = ''['' @ repr a @ '']''"
  by (simp add: str_of_list_def)

lemma str_of_list_single_neq: "str_of_list [a] \<noteq> a"
proof
  assume "str_of_list [a] = a"
  then have "length (str_of_list [a]) = length a" by simp
  with repr_length [of a] show False by (simp add: str_of_list_single)
qed

text \<open>
  C3. On the POSIX path, with one argument that has no newline, the code formats the
  list \<open>arguments\<close> itself, not its element: when the call returns, the final line of the
  script is the \<open>repr\<close> of the argument between brackets, which is never the argument
  itself. For the argument \<open>ls\<close> the line is \<open>['ls']\<close>.
\<close>

theorem lone_argument_written_as_list:
  "wrap_subprocess_call h False root_prefix prefix dev_mode debug_wrapper_scripts [a] = Inr w
     \<and> NL \<notin> set a
   \<longrightarrow> command_section False (script w) = Text (''['' @ repr a @ '']'' @ [NL])
     \<and> command_section False (script w) \<noteq> Text (a @ [NL])"
proof
  assume a: "wrap_subprocess_call h False root_prefix prefix dev_mode debug_wrapper_scripts [a] = Inr w
     \<and> NL \<notin> set a"
  then have "script w = posix_lines h (posix_conda_exe h root_prefix dev_mode) prefix
      debug_wrapper_scripts [a]"
    using wrap_script [of h False root_prefix prefix dev_mode debug_wrapper_scripts "[a]" w]
    by simp
  with a have c: "command_section False (script w) = Text (str_of_list [a] @ [NL])"
    by (simp add: command_section_posix multiline_iff)
  with str_of_list_single_neq [of a]
  show "command_section False (script w) = Text (''['' @ repr a @ '']'' @ [NL])
     \<and> command_section False (script w) \<noteq> Text (a @ [NL])"
    by (simp add: str_of_list_single)
qed

theorem lone_argument_written_as_list_witness:
  "\<exists>w. wrap_subprocess_call linux_host False ''/opt/conda'' ''/opt/conda/envs/test'' False False
          [''ls''] = Inr w
     \<and> NL \<notin> set ''ls''
     \<and> command_section False (script w) = Text (''['' @ [SQ] @ ''ls'' @ [SQ] @ '']'' @ [NL])
     \<and> command_section False (script w) \<noteq> Text (''ls'' @ [NL])"
proof -
  obtain w where w: "wrap_subprocess_call linux_host False ''/opt/conda'' ''/opt/conda/envs/test''
      False False [''ls''] = Inr w"
    using wrap_posix_text_ok [of linux_host "''/opt/conda/envs/test''" _ "''/opt/conda''" False False
        "[''ls'']"]
    by (simp add: linux_host_simps)
  have r: "repr ''ls'' = [SQ] @ ''ls'' @ [SQ]"
    by (simp add: repr_def repr_char_def Let_def)
  have n: "NL \<notin> set ''ls''" by simp
  from w n r show ?thesis
    using lone_argument_written_as_list [of linux_host "''/opt/conda''" "''/opt/conda/envs/test''"
        False False "''ls''" w]
    by simp
qed

section \<open>Properties of \<open>unix_path_to_win\<close>\<close>

lemma path_group_short: "length s < 3 \<Longrightarrow> rmatch path_group s = []"
proof (cases s)
  case Nil
  then show ?thesis by (simp add: path_group_def)
next
  case (Cons c s')
  assume "length s < 3"
  with Cons show ?thesis
    by (cases s'; cases "tl s'") (auto simp: path_group_def)
qed

lemma drive_re_short: "length s < 4 \<Longrightarrow> rmatch drive_re s = []"
proof (cases s)
  case Nil
  then show ?thesis by (simp add: drive_re_def)
next
  case (Cons c s')
  assume "length s < 4"
  with Cons show ?thesis
    by (cases s'; cases "tl s'"; cases "tl (tl s')") (auto simp: drive_re_def)
qed

lemma re_sub_no_match:
  "(\<And>t. length t \<le> length s \<Longrightarrow> find_match r False t = None) \<Longrightarrow> re_sub r repl False s = Inr s"
proof (induction s)
  case Nil
  then show ?case by (subst re_sub.simps) (simp add: then_append_def)
next
  case (Cons c cs)
  then show ?case by (subst re_sub.simps) (simp add: then_append_def)
qed

lemma path_re_short: "length t \<le> 1 \<Longrightarrow> find_match (Seq (Lit root_prefix) path_group) adv t = None"
  by (simp add: find_match_def path_group_short)

lemma drive_re_short_find: "length t \<le> 1 \<Longrightarrow> find_match drive_re adv t = None"
  by (simp add: find_match_def drive_re_short)

lemma short_literal:
  assumes "list_all (\<lambda>c. c \<notin> set re_specials) root_prefix" and "length path \<le> 1"
  shows "unix_path_to_win path root_prefix = Some (Inr path)"
proof -
  from assms(1) have c: "compile_path_re root_prefix = Some (Inr (Seq (Lit root_prefix) path_group))"
    by (simp add: compile_path_re_def)
  from assms(2) have a: "re_sub (Seq (Lit root_prefix) path_group) (translation root_prefix) False path
      = Inr path"
    by (intro re_sub_no_match path_re_short) simp
  from assms(2) have b: "re_sub drive_re drive_sep False path = Inr path"
    by (intro re_sub_no_match drive_re_short_find) simp
  from assms(2) show ?thesis
    by (simp add: unix_path_to_win_def c a b)
qed

lemma replace_char_idem: "a \<noteq> b \<Longrightarrow> replace_char a b (replace_char a b s) = replace_char a b s"
  by (simp add: replace_char_def)

lemma replace_char_length: "length (replace_char a b s) = length s"
  by (simp add: replace_char_def)

lemma replace_char_mem: "c \<noteq> a \<Longrightarrow> c \<noteq> b \<Longrightarrow> c \<in> set (replace_char a b s) \<longleftrightarrow> c \<in> set s"
  by (auto simp: replace_char_def)

lemma replace_char_count:
  "c \<noteq> a \<Longrightarrow> c \<noteq> b \<Longrightarrow> count_list (replace_char a b s) c = count_list s c"
  by (induction s) (simp_all add: replace_char_def)

lemma replace_char_nth:
  "i < length s \<Longrightarrow> c \<noteq> a \<Longrightarrow> c \<noteq> b \<Longrightarrow> replace_char a b s ! i = c \<longleftrightarrow> s ! i = c"
  by (simp add: replace_char_def)

lemma windows_long:
  "looks_like_windows p \<Longrightarrow> 1 < length p \<Longrightarrow>
     unix_path_to_win p root_prefix = Some (Inr (replace_char CHR ''/'' BSL p))"
  by (simp add: unix_path_to_win_def looks_like_windows_def str_in_single)

lemma looks_like_windows_replace:
  "looks_like_windows (replace_char CHR ''/'' BSL p) = looks_like_windows p"
  by (auto simp: looks_like_windows_def replace_char_length replace_char_mem replace_char_count
      replace_char_nth)

lemma looks_like_windows_short: "looks_like_windows p \<Longrightarrow> \<not> 1 < length p \<Longrightarrow> p = '';''"
  by (cases p) (auto simp: looks_like_windows_def)

text \<open>
  C4. With the default, empty \<open>root_prefix\<close> the path \<open>/c/Users/x\<close> becomes
  \<open>c:\Users\x\<close>: the drive letter is taken from the path as it is, so a capital drive
  letter comes only from a capital letter in the input.
\<close>

theorem drive_letter_kept:
  "unix_path_to_win ''/c/Users/x'' [] = Some (Inr (''c:'' @ [BSL] @ ''Users'' @ [BSL] @ ''x''))
   \<and> unix_path_to_win ''/C/Users/x'' [] = Some (Inr (''C:'' @ [BSL] @ ''Users'' @ [BSL] @ ''x''))"
  by code_simp

text \<open>The result for \<open>/c/Users/x\<close> is not \<open>C:\Users\x\<close>.\<close>

theorem drive_letter_not_capitalised:
  "unix_path_to_win ''/c/Users/x'' [] \<noteq> Some (Inr (''C:'' @ [BSL] @ ''Users'' @ [BSL] @ ''x''))"
  by code_simp

text \<open>
  C5. For a path that looks like a Windows path (it contains a semicolon, or its second
  character is a colon and it has exactly one colon) \<open>unix_path_to_win\<close> returns the path
  with every slash replaced by a backslash, and applied to that result it returns it
  again. The path of one character \<open>;\<close> does not take the first branch of the code: for
  it the two substitutions run, with a \<open>root_prefix\<close> that is a literal pattern, as the
  default one is.
\<close>

theorem already_windows_idempotent:
  assumes "looks_like_windows p"
    and "1 < length p \<or> list_all (\<lambda>c. c \<notin> set re_specials) root_prefix"
  shows "unix_path_to_win p root_prefix = Some (Inr (replace_char CHR ''/'' BSL p))
     \<and> unix_path_to_win (replace_char CHR ''/'' BSL p) root_prefix
         = Some (Inr (replace_char CHR ''/'' BSL p))"
proof (cases "1 < length p")
  case True
  with assms(1) have "unix_path_to_win p root_prefix = Some (Inr (replace_char CHR ''/'' BSL p))"
    by (rule windows_long)
  moreover from True assms(1)
  have "unix_path_to_win (replace_char CHR ''/'' BSL p) root_prefix
      = Some (Inr (replace_char CHR ''/'' BSL (replace_char CHR ''/'' BSL p)))"
    by (intro windows_long) (simp_all add: looks_like_windows_replace replace_char_length)
  ultimately show ?thesis by (simp add: replace_char_idem)
next
  case False
  with assms(1) have p: "p = '';''" by (rule looks_like_windows_short)
  from False assms(2) have "list_all (\<lambda>c. c \<notin> set re_specials) root_prefix" by simp
  then have "unix_path_to_win '';'' root_prefix = Some (Inr '';'')"
    by (rule short_literal) simp
  with p show ?thesis by (simp add: replace_char_def)
qed

theorem already_windows_idempotent_witness:
  "looks_like_windows ''C:/Users/x;D:/y''
   \<and> unix_path_to_win ''C:/Users/x;D:/y'' []
       = Some (Inr (''C:'' @ [BSL] @ ''Users'' @ [BSL] @ ''x;D:'' @ [BSL] @ ''y''))
   \<and> unix_path_to_win (''C:'' @ [BSL] @ ''Users'' @ [BSL] @ ''x;D:'' @ [BSL] @ ''y'') []
       = Some (Inr (''C:'' @ [BSL] @ ''Users'' @ [BSL] @ ''x;D:'' @ [BSL] @ ''y''))
   \<and> looks_like_windows '';''
   \<and> unix_path_to_win '';'' [] = Some (Inr '';'')"
  using already_windows_idempotent [of "''C:/Users/x;D:/y''" "[]"]
    already_windows_idempotent [of "'';''" "[]"]
  by (simp add: looks_like_windows_def replace_char_def)

text \<open>
  C10. For a \<open>root_prefix\<close> without any character that has a meaning in a pattern, and
  a path of length at most one, \<open>unix_path_to_win\<close> returns the path unchanged.
\<close>

theorem short_path_unchanged:
  "list_all (\<lambda>c. c \<notin> set re_specials) root_prefix \<and> length path \<le> 1
   \<longrightarrow> unix_path_to_win path root_prefix = Some (Inr path)"
  by (simp add: short_literal)

theorem short_path_unchanged_witness:
  "list_all (\<lambda>c. c \<notin> set re_specials) ''/cygdrive''
   \<and> unix_path_to_win '';'' ''/cygdrive'' = Some (Inr '';'')
   \<and> unix_path_to_win [] ''/cygdrive'' = Some (Inr [])
   \<and> cygwin_path_to_win ''/'' = Some (Inr ''/'')"
  using short_path_unchanged [of "''/cygdrive''" "'';''"]
    short_path_unchanged [of "''/cygdrive''" "[]"]
    short_path_unchanged [of "''/cygdrive''" "''/''"]
  by (simp add: re_specials_def cygwin_path_to_win_def)

text \<open>
  With the \<open>root_prefix\<close> \<open>(\<close> the pattern has a group that is not closed: the call raises
  \<open>re.error\<close>, also for the empty path.
\<close>

theorem short_path_prefix_pattern:
  "unix_path_to_win [] ''('' = Some (Inl ReError) \<and> unix_path_to_win [] ''('' \<noteq> Some (Inr [])"
  by (simp add: unix_path_to_win_def compile_path_re_def re_specials_def)

section \<open>The words of a quoted command line\<close>

lemma split_single:
  "SQ \<notin> set a \<Longrightarrow>
     shell_split In_single (Some w) (a @ SQ # r) = shell_split Unquoted (Some (w @ a)) r"
  by (induction a arbitrary: w) (auto simp: word_of_def)

lemma split_double:
  "DQ \<notin> set a \<Longrightarrow> list_all (\<lambda>c. c \<notin> set double_special) a \<Longrightarrow>
     shell_split In_double (Some w) (a @ DQ # r) = shell_split Unquoted (Some (w @ a)) r"
  by (induction a arbitrary: w) (auto simp: word_of_def)

lemma split_unquoted:
  "SQ \<notin> set a \<Longrightarrow> DQ \<notin> set a \<Longrightarrow>
   list_all (\<lambda>c. \<not> shell_blank c \<and> c \<notin> set shell_special) a \<Longrightarrow>
     shell_split Unquoted (Some w) (a @ r) = shell_split Unquoted (Some (w @ a)) r"
  by (induction a arbitrary: w) (auto simp: word_of_def)

lemma split_unquoted_start:
  assumes "a \<noteq> []" and "SQ \<notin> set a" and "DQ \<notin> set a"
    and "list_all (\<lambda>c. \<not> shell_blank c \<and> c \<notin> set shell_special) a"
  shows "shell_split Unquoted None (a @ r) = shell_split Unquoted (Some a) r"
proof (cases a)
  case Nil
  with assms(1) show ?thesis by simp
next
  case (Cons c cs)
  with assms show ?thesis
    using split_unquoted [of cs "[c]" r] by (auto simp: word_of_def)
qed

lemma split_arg:
  assumes "safely_quoted a"
  shows "shell_split Unquoted None (spec_quote_arg a @ r) = shell_split Unquoted (Some a) r"
proof (cases "DQ \<in> set a")
  case True
  with assms have "SQ \<notin> set a" by (simp add: safely_quoted_def)
  with True show ?thesis
    using split_single [of a "[]" r]
    by (simp add: spec_quote_arg_def spec_quote_char_def word_of_def shell_blank_def)
next
  case noDQ: False
  show ?thesis
  proof (cases "SQ \<in> set a \<or> CHR '' '' \<in> set a \<or> NL \<in> set a")
    case True
    with noDQ assms have "list_all (\<lambda>c. c \<notin> set double_special) a"
      by (simp add: safely_quoted_def)
    with noDQ True show ?thesis
      using split_double [of a "[]" r]
      by (auto simp: spec_quote_arg_def spec_quote_char_def word_of_def shell_blank_def)
  next
    case False
    with noDQ assms have "a \<noteq> []"
      and "list_all (\<lambda>c. \<not> shell_blank c \<and> c \<notin> set shell_special) a"
      by (simp_all add: safely_quoted_def)
    with noDQ False show ?thesis
      using split_unquoted_start [of a r]
      by (simp add: spec_quote_arg_def spec_quote_char_def)
  qed
qed

lemma split_args:
  "list_all safely_quoted arguments \<Longrightarrow>
     shell_split Unquoted None (spec_space_joined (map spec_quote_arg arguments)) = Some arguments"
proof (induction arguments)
  case Nil
  show ?case by simp
next
  case (Cons a as)
  then have a: "safely_quoted a" and as: "list_all safely_quoted as" by simp_all
  show ?case
  proof (cases "as = []")
    case True
    with a show ?thesis using split_arg [of a "[]"] by simp
  next
    case False
    with a as Cons.IH show ?thesis
      using split_arg [of a "'' '' @ spec_space_joined (map spec_quote_arg as)"]
      by (simp add: shell_blank_def)
  qed
qed

text \<open>
  C6. For a shell of the POSIX family and arguments that are all safely quoted, the
  words the shell reads in the string \<open>quote_for_shell\<close> returns are the arguments: as
  many, in the same order.
\<close>

theorem quoted_words_are_arguments:
  "default_shell h shell \<noteq> ''cmd.exe'' \<and> list_all safely_quoted arguments
   \<longrightarrow> shell_words (quote_for_shell h arguments shell) = Some arguments"
  by (simp add: quote_for_shell_def quote_loop_acc join_space_spec shell_words_def split_args)

theorem quoted_words_are_arguments_witness:
  "default_shell linux_host None \<noteq> ''cmd.exe''
   \<and> list_all safely_quoted [''python'', ''-c'', ''print('' @ [SQ] @ ''a b'' @ [SQ] @ '')'', ''my dir'']
   \<and> quote_for_shell linux_host
        [''python'', ''-c'', ''print('' @ [SQ] @ ''a b'' @ [SQ] @ '')'', ''my dir''] None
       = ''python -c '' @ [DQ] @ ''print('' @ [SQ] @ ''a b'' @ [SQ] @ '')'' @ [DQ] @ '' ''
         @ [DQ] @ ''my dir'' @ [DQ]
   \<and> shell_words (''python -c '' @ [DQ] @ ''print('' @ [SQ] @ ''a b'' @ [SQ] @ '')'' @ [DQ] @ '' ''
         @ [DQ] @ ''my dir'' @ [DQ])
       = Some [''python'', ''-c'', ''print('' @ [SQ] @ ''a b'' @ [SQ] @ '')'', ''my dir'']"
proof -
  have q: "quote_for_shell linux_host
        [''python'', ''-c'', ''print('' @ [SQ] @ ''a b'' @ [SQ] @ '')'', ''my dir''] None
       = ''python -c '' @ [DQ] @ ''print('' @ [SQ] @ ''a b'' @ [SQ] @ '')'' @ [DQ] @ '' ''
         @ [DQ] @ ''my dir'' @ [DQ]"
    by (simp add: quote_for_shell_def default_shell_def linux_host_simps choose_quote_def)
  have d: "default_shell linux_host None \<noteq> ''cmd.exe''"
    by (simp add: default_shell_def linux_host_simps)
  have s: "list_all safely_quoted
      [''python'', ''-c'', ''print('' @ [SQ] @ ''a b'' @ [SQ] @ '')'', ''my dir'']"
    by (simp add: safely_quoted_def shell_blank_def shell_special_def double_special_def)
  from d s q show ?thesis
    using quoted_words_are_arguments [of linux_host None
        "[''python'', ''-c'', ''print('' @ [SQ] @ ''a b'' @ [SQ] @ '')'', ''my dir'']"]
    by simp
qed

text \<open>
  An empty argument is not quoted and leaves no word: the three arguments \<open>a\<close>, the empty
  string and \<open>b\<close> give \<open>a  b\<close>, in which the shell reads two words. An argument with a
  tab is not quoted either, and the shell reads two words in it.
\<close>

theorem empty_argument_dropped:
  "quote_for_shell linux_host [''a'', [], ''b''] None = ''a  b''
   \<and> shell_words (quote_for_shell linux_host [''a'', [], ''b''] None) = Some [''a'', ''b'']
   \<and> quote_for_shell linux_host [''a'' @ [TAB] @ ''b''] None = ''a'' @ [TAB] @ ''b''
   \<and> shell_words (quote_for_shell linux_host [''a'' @ [TAB] @ ''b''] None) = Some [''a'', ''b'']"
  by (simp add: quote_for_shell_def default_shell_def linux_host_simps choose_quote_def
      shell_words_def shell_blank_def shell_special_def word_of_def)

end
